theory Spec2Isabelle
  imports Complex_Main "HOL-Library.Word"
begin

unbundle bit_operations_syntax

section \<open>Python values used by the three scripts\<close>

text \<open>
  Python integers are unbounded and are modelled as \<open>int\<close>; \<open>&\<close>, \<open>|\<close>, \<open>~\<close> and \<open><<\<close>
  on them are the bit operations of \<open>int\<close> (two's complement, infinitely sign-extended), as
  in Python. Every exception that the modelled code can raise is a value of \<open>error\<close>.
\<close>

datatype error =
  ValueError | IndexError | KeyError | ZeroDivisionError | OverflowError | SystemExit
  | ArgparseError

definition bind_err :: "error + 'a \<Rightarrow> ('a \<Rightarrow> error + 'b) \<Rightarrow> error + 'b" where
  "bind_err m f = (case m of Inl e \<Rightarrow> Inl e | Inr a \<Rightarrow> f a)"

text \<open>
  A \<open>bytearray\<close> is a list of integers in \<open>range(256)\<close>. Storing an element checks the
  index (\<open>IndexError\<close>) and the value (\<open>ValueError: byte must be in range(0, 256)\<close>).
\<close>

type_synonym bytearray = "int list"

definition setitem :: "bytearray \<Rightarrow> nat \<Rightarrow> int \<Rightarrow> error + bytearray" where
  "setitem buf k v =
     (if length buf \<le> k then Inl IndexError
      else if 0 \<le> v \<and> v < 256 then Inr (buf[k := v])
      else Inl ValueError)"

definition getitem :: "'a list \<Rightarrow> nat \<Rightarrow> error + 'a" where
  "getitem xs k = (if k < length xs then Inr (xs ! k) else Inl IndexError)"

text \<open>A \<open>for\<close> loop over indices whose body may raise: the first exception ends the loop.\<close>

fun for_each :: "nat list \<Rightarrow> (nat \<Rightarrow> 'a \<Rightarrow> error + 'a) \<Rightarrow> 'a \<Rightarrow> error + 'a" where
  "for_each [] body a = Inr a"
| "for_each (i # is) body a = bind_err (body i a) (for_each is body)"

section \<open>host_send_mice.py\<close>

definition SYNC :: int where "SYNC = 0xAA"
definition PACKET_LEN :: nat where "PACKET_LEN = 15"
definition NUM_MICE_MAX :: nat where "NUM_MICE_MAX = 6"

text \<open>
  One entry of \<open>state\<close> is the Python list \<open>[dx, dy, btns, wheel]\<close>, read and written by
  position; the record names the four positions 0..3.
\<close>

record slot =
  dx :: int
  dy :: int
  btns :: int
  wheel :: int

definition zero_slot :: slot where
  "zero_slot = \<lparr>dx = 0, dy = 0, btns = 0, wheel = 0\<rparr>"

text \<open>Line 59: \<open>state = [[0, 0, 0, 0] for _ in range(NUM_MICE_MAX)]\<close>.\<close>

definition init_state :: "slot list" where
  "init_state = replicate NUM_MICE_MAX zero_slot"

subsection \<open>make_packet (lines 61-81)\<close>

text \<open>Lines 64-67: the twelve motion bytes.\<close>

definition write_motion :: "slot list \<Rightarrow> bytearray \<Rightarrow> error + bytearray" where
  "write_motion state =
     for_each [0..<NUM_MICE_MAX] (\<lambda>i buf.
       bind_err (getitem state i) (\<lambda>s.
       bind_err (setitem buf (1 + i * 2) (dx s AND 0xFF)) (\<lambda>buf.
       setitem buf (2 + i * 2) (dy s AND 0xFF))))"

text \<open>Lines 68-70: \<open>buf[13] |= state[i][2] & 0x07\<close>.\<close>

definition write_buttons :: "slot list \<Rightarrow> bytearray \<Rightarrow> error + bytearray" where
  "write_buttons state buf0 =
     bind_err (setitem buf0 13 0)
       (for_each [0..<NUM_MICE_MAX] (\<lambda>i buf.
          bind_err (getitem state i) (\<lambda>s.
          bind_err (getitem buf 13) (\<lambda>b.
          setitem buf 13 (b OR (btns s AND 0x07))))))"

text \<open>
  The saturation that the script writes out inline twice, with the same three branches:
  on the local \<open>w\<close> (lines 74-77) and on \<open>state[i][j]\<close> (lines 116-119).
\<close>

definition saturate :: "int \<Rightarrow> int" where
  "saturate w = (if w > 127 then 127 else if w < -128 then -128 else w)"

text \<open>Lines 71-78: \<open>buf[14] = (buf[14] + w) & 0xFF\<close>.\<close>

definition write_wheel :: "slot list \<Rightarrow> bytearray \<Rightarrow> error + bytearray" where
  "write_wheel state buf0 =
     bind_err (setitem buf0 14 0)
       (for_each [0..<NUM_MICE_MAX] (\<lambda>i buf.
          bind_err (getitem state i) (\<lambda>s.
          bind_err (getitem buf 14) (\<lambda>b.
          setitem buf 14 ((b + saturate (wheel s)) AND 0xFF)))))"

text \<open>
  Lines 79-80: \<open>if buf[14] >= 128: buf[14] -= 256  # signed\<close>. The augmented assignment
  stores \<open>buf[14] - 256\<close> back into the bytearray, through the same element check as every
  other store.
\<close>

definition sign_fix :: "bytearray \<Rightarrow> error + bytearray" where
  "sign_fix buf =
     bind_err (getitem buf 14) (\<lambda>b.
       if b \<ge> 128 then setitem buf 14 (b - 256) else Inr buf)"

definition make_packet :: "slot list \<Rightarrow> error + bytearray" where
  "make_packet state =
     bind_err (setitem (replicate PACKET_LEN 0) 0 SYNC) (\<lambda>buf.
     bind_err (write_motion state buf) (\<lambda>buf.
     bind_err (write_buttons state buf) (\<lambda>buf.
     bind_err (write_wheel state buf) sign_fix)))"

subsection \<open>The event loop (lines 93-124)\<close>

text \<open>
  An evdev event carries a type, a code and a value; only the types and codes that the
  loop tests are distinguished.
\<close>

datatype rel_code = REL_X | REL_Y | REL_WHEEL | REL_OTHER
datatype key_code = BTN_LEFT | BTN_RIGHT | BTN_MIDDLE | KEY_OTHER
datatype event = EV_REL rel_code int | EV_KEY key_code int | EV_OTHER

text \<open>Line 109: the dictionary from button code to bit number.\<close>

fun button_bit :: "key_code \<Rightarrow> nat option" where
  "button_bit BTN_LEFT = Some 0"
| "button_bit BTN_RIGHT = Some 1"
| "button_bit BTN_MIDDLE = Some 2"
| "button_bit KEY_OTHER = None"

text \<open>Lines 100-113: the effect of one event on \<open>state[i]\<close>.\<close>

fun on_event :: "event \<Rightarrow> slot \<Rightarrow> slot" where
  "on_event (EV_REL REL_X v) s = s\<lparr>dx := dx s + v\<rparr>"
| "on_event (EV_REL REL_Y v) s = s\<lparr>dy := dy s + v\<rparr>"
| "on_event (EV_REL REL_WHEEL v) s = s\<lparr>wheel := wheel s + v\<rparr>"
| "on_event (EV_REL REL_OTHER v) s = s"
| "on_event (EV_KEY c v) s =
     (case button_bit c of
        None \<Rightarrow> s
      | Some k \<Rightarrow>
          if v \<noteq> 0 then s\<lparr>btns := btns s OR push_bit k 1\<rparr>
          else s\<lparr>btns := btns s AND NOT (push_bit k 1)\<rparr>)"
| "on_event EV_OTHER s = s"

text \<open>
  Lines 95-113: \<open>for i, dev in enumerate(mice)\<close>. The entry for a slot is \<open>None\<close> when
  the device is absent or not ready, and otherwise the events that \<open>dev.read()\<close> yields,
  applied in order.
\<close>

fun drain :: "nat \<Rightarrow> event list option list \<Rightarrow> slot list \<Rightarrow> slot list" where
  "drain i [] state = state"
| "drain i (None # rs) state = drain (Suc i) rs state"
| "drain i (Some evs # rs) state =
     drain (Suc i) rs (state[i := fold on_event evs (state ! i)])"

text \<open>Lines 114-119: positions 0 and 1 of every slot are saturated in place.\<close>

definition clamp_motion :: "slot list \<Rightarrow> slot list" where
  "clamp_motion state =
     fold (\<lambda>i st. st[i := (st ! i)\<lparr>dx := saturate (dx (st ! i)), dy := saturate (dy (st ! i))\<rparr>])
       [0..<NUM_MICE_MAX] state"

text \<open>Lines 122-124 (and 83-85): positions 0, 1 and 3 of every slot are set to 0.\<close>

definition reset_accum :: "slot list \<Rightarrow> slot list" where
  "reset_accum state =
     fold (\<lambda>i st. st[i := (st ! i)\<lparr>dx := 0, dy := 0, wheel := 0\<rparr>]) [0..<NUM_MICE_MAX] state"

text \<open>
  One pass of the \<open>while True\<close> body after \<open>select\<close> has returned: the result is the
  packet handed to \<open>ser.write\<close> and the state the next pass starts from. An exception
  raised by \<open>make_packet\<close> is not caught anywhere and ends the program before the write.
\<close>

definition loop_iteration ::
    "event list option list \<Rightarrow> slot list \<Rightarrow> error + (bytearray \<times> slot list)" where
  "loop_iteration reads state =
     (let st = clamp_motion (drain 0 reads state) in
      bind_err (make_packet st) (\<lambda>pkt. Inr (pkt, reset_accum st)))"

text \<open>
  Lines 93-124: the \<open>while True\<close> loop over the successive returns of \<open>select\<close>, each
  with what it found readable. \<open>select\<close> returns as soon as a device is readable and
  otherwise when its timeout is over, and every return runs the whole body: a packet is
  written and the accumulators are reset each time. The result is the list of the packets
  written, in order, and the last state.
\<close>

fun run_passes ::
    "event list option list list \<Rightarrow> slot list \<Rightarrow> error + (bytearray list \<times> slot list)" where
  "run_passes [] state = Inr ([], state)"
| "run_passes (reads # rest) state =
     bind_err (loop_iteration reads state) (\<lambda>(pkt, st).
     bind_err (run_passes rest st) (\<lambda>(pkts, st'). Inr (pkt # pkts, st')))"

text \<open>Line 94: the timeout of every \<open>select\<close> call is the literal \<open>0.02\<close> seconds.\<close>

definition select_timeout :: rat where
  "select_timeout = 2 / 100"

section \<open>test_random_mice.py\<close>

definition clamp_s8 :: "int \<Rightarrow> int" where
  "clamp_s8 x = max (-128) (min 127 x)"

text \<open>
  Lines 35-45. \<open>deltas\<close> is a list of two-element lists \<open>[dx, dy]\<close>, modelled as pairs.
  The script has its own \<open>make_packet\<close>; the suffix tells it from the one above.
\<close>

definition make_packet_synth :: "(int \<times> int) list \<Rightarrow> error + bytearray" where
  "make_packet_synth deltas =
     bind_err (setitem (replicate PACKET_LEN 0) 0 SYNC) (\<lambda>buf.
     bind_err (for_each [0..<NUM_MICE_MAX] (\<lambda>i buf.
         bind_err (getitem deltas i) (\<lambda>(x, y).
         bind_err (setitem buf (1 + i * 2) (clamp_s8 x AND 0xFF)) (\<lambda>buf.
         setitem buf (2 + i * 2) (clamp_s8 y AND 0xFF)))) buf) (\<lambda>buf.
     bind_err (setitem buf 13 0) (\<lambda>buf.
     setitem buf 14 0)))"

text \<open>
  \<open>random.randint(lo, hi)\<close> returns some integer of \<open>[lo, hi]\<close>. The generator is an
  input: \<open>rnd k\<close> is the raw value behind the \<open>k\<close>-th call of a pass, folded into the range.
\<close>

definition randint :: "int \<Rightarrow> int \<Rightarrow> int \<Rightarrow> int" where
  "randint lo hi raw = lo + raw mod (hi - lo + 1)"

text \<open>Lines 91-99: the deltas of one pass, for \<open>--single N\<close> or for all slots.\<close>

definition gen_deltas :: "int option \<Rightarrow> int \<Rightarrow> (nat \<Rightarrow> int) \<Rightarrow> (int \<times> int) list" where
  "gen_deltas single mag rnd =
     (let deltas = replicate NUM_MICE_MAX (0, 0) in
      case single of
        Some n \<Rightarrow> deltas[nat n := (randint (- mag) mag (rnd 0), randint (- mag) mag (rnd 1))]
      | None \<Rightarrow>
          fold (\<lambda>i ds. ds[i := (randint (- mag) mag (rnd (2 * i)),
                                randint (- mag) mag (rnd (2 * i + 1)))])
            [0..<NUM_MICE_MAX] deltas)"

text \<open>
  Lines 67-69, 75-76 and 91-101: the check of \<open>--single\<close>, \<open>interval = 1.0 / args.rate\<close>
  (which raises for a rate of zero), the clamp of \<open>--magnitude\<close> and one pass of the loop
  up to the packet handed to \<open>ser.write\<close>.
\<close>

definition synth_frame ::
    "int option \<Rightarrow> int \<Rightarrow> rat \<Rightarrow> (nat \<Rightarrow> int) \<Rightarrow> error + bytearray" where
  "synth_frame single magnitude rate rnd =
     (if (case single of None \<Rightarrow> False | Some n \<Rightarrow> n < 0 \<or> n \<ge> int NUM_MICE_MAX)
      then Inl SystemExit
      else if rate = 0 then Inl ZeroDivisionError
      else let mag = max 1 (min 127 magnitude) in
           make_packet_synth (gen_deltas single mag rnd))"

text \<open>
  Lines 107-110: the pause after \<open>packets\<close> packets have been written. Clock readings
  (\<open>time.monotonic()\<close>) are inputs, taken as exact rationals. \<open>time.sleep\<close> is called only
  for a positive \<open>sleep_time\<close>; \<open>wake_time\<close> is the clock value at which it returns when
  it sleeps for exactly the time asked.
\<close>

definition next_until :: "rat \<Rightarrow> nat \<Rightarrow> rat \<Rightarrow> rat" where
  "next_until start packets interval = start + (of_nat packets + 1) * interval"

definition sleep_time :: "rat \<Rightarrow> nat \<Rightarrow> rat \<Rightarrow> rat \<Rightarrow> rat" where
  "sleep_time start packets interval now = next_until start packets interval - now"

definition wake_time :: "rat \<Rightarrow> nat \<Rightarrow> rat \<Rightarrow> rat \<Rightarrow> rat" where
  "wake_time start packets interval now =
     (if sleep_time start packets interval now > 0
      then now + sleep_time start packets interval now else now)"

section \<open>send_settings.py\<close>

definition LOGIC_MODES :: "(string \<times> int) list" where
  "LOGIC_MODES =
     [(''sum'', 0), (''average'', 1), (''max'', 2),
      (''min'', 3), (''and'', 4), (''or'', 5), (''xor'', 6),
      (''nand'', 7), (''nor'', 8), (''xnor'', 9)]"

definition INPUT_MODES :: "(string \<times> int) list" where
  "INPUT_MODES = [(''uart'', 0), (''quadrature'', 1), (''both'', 2)]"

definition OUTPUT_MODES :: "(string \<times> int) list" where
  "OUTPUT_MODES = [(''combined'', 0), (''separate'', 1)]"

definition UART_CONFIG_SYNC1 :: int where "UART_CONFIG_SYNC1 = 0x55"
definition UART_CONFIG_SYNC2 :: int where "UART_CONFIG_SYNC2 = 0xCF"
definition UART_CONFIG_CMD :: int where "UART_CONFIG_CMD = 0x01"

subsection \<open>Python floats\<close>

text \<open>
  A Python \<open>float\<close> is an IEEE 754 binary64 value: a finite one is the rational it
  denotes, and there are the two infinities and NaN (the sign of zero plays no part in
  what follows).
\<close>

datatype pyfloat = Finite rat | PosInf | NegInf | NaN

definition pow2 :: "int \<Rightarrow> rat" where
  "pow2 e = (if 0 \<le> e then 2 ^ nat e else 1 / 2 ^ nat (- e))"

text \<open>The number of halvings that bring a positive integer below 2.\<close>

function ilog2 :: "int \<Rightarrow> int" where
  "ilog2 n = (if n < 2 then 0 else 1 + ilog2 (n div 2))"
  by pat_completeness auto
termination
  by (relation "measure nat") auto

text \<open>The integer \<open>k\<close> with \<open>2 ^ k \<le> |x| < 2 ^ (k + 1)\<close>, for \<open>x\<close> other than 0.\<close>

definition floor_log2 :: "rat \<Rightarrow> int" where
  "floor_log2 x =
     (let (a, b) = quotient_of \<bar>x\<bar>;
          g = ilog2 a - ilog2 b
      in if pow2 g \<le> \<bar>x\<bar> then g else g - 1)"

text \<open>To the nearest integer, a tie to the even one.\<close>

definition round_half_even :: "rat \<Rightarrow> int" where
  "round_half_even x =
     (let f = \<lfloor>x\<rfloor>; d = x - of_int f in
      if d < 1 / 2 then f else if 1 / 2 < d then f + 1
      else if even f then f else f + 1)"

text \<open>
  The binary64 value nearest to a rational, ties to even: a significand \<open>m\<close> of at most
  53 bits and an exponent \<open>e\<close> of at least \<open>-1074\<close>; beyond the largest finite value
  \<open>(2 ^ 53 - 1) * 2 ^ 971\<close> the result is an infinity. This is what \<open>float("...")\<close> gives
  for a decimal text, and the rounding that every arithmetic operation ends with.
\<close>

definition float_of_rat :: "rat \<Rightarrow> pyfloat" where
  "float_of_rat x =
     (if x = 0 then Finite 0
      else
        let e = max (floor_log2 x - 52) (- 1074);
            m = round_half_even (x / pow2 e)
        in if 971 < e \<or> (e = 971 \<and> 2 ^ 53 \<le> \<bar>m\<bar>)
           then (if 0 < x then PosInf else NegInf)
           else Finite (of_int m * pow2 e))"

text \<open>The product \<open>x * y\<close> of two floats.\<close>

fun fmul :: "pyfloat \<Rightarrow> pyfloat \<Rightarrow> pyfloat" where
  "fmul (Finite a) (Finite b) = float_of_rat (a * b)"
| "fmul NaN y = NaN"
| "fmul x NaN = NaN"
| "fmul (Finite a) PosInf = (if a = 0 then NaN else if 0 < a then PosInf else NegInf)"
| "fmul (Finite a) NegInf = (if a = 0 then NaN else if 0 < a then NegInf else PosInf)"
| "fmul PosInf (Finite b) = (if b = 0 then NaN else if 0 < b then PosInf else NegInf)"
| "fmul NegInf (Finite b) = (if b = 0 then NaN else if 0 < b then NegInf else PosInf)"
| "fmul PosInf PosInf = PosInf"
| "fmul PosInf NegInf = NegInf"
| "fmul NegInf PosInf = NegInf"
| "fmul NegInf NegInf = PosInf"

text \<open>
  Python's \<open>round\<close> with one argument, on a float: the nearest integer, a tie to the even
  one; \<open>OverflowError\<close> for an infinity and \<open>ValueError\<close> for NaN. The \<open>int(...)\<close> around
  it on line 58 leaves the integer as it is.
\<close>

fun py_round :: "pyfloat \<Rightarrow> error + int" where
  "py_round (Finite x) = Inr (round_half_even x)"
| "py_round PosInf = Inl OverflowError"
| "py_round NegInf = Inl OverflowError"
| "py_round NaN = Inl ValueError"

subsection \<open>build_packet (lines 56-66)\<close>

text \<open>Line 58: \<open>max(10, min(1000, int(round(amplify * 100))))\<close>.\<close>

definition amplify_x100 :: "pyfloat \<Rightarrow> error + int" where
  "amplify_x100 amplify =
     bind_err (py_round (fmul amplify (Finite 100))) (\<lambda>r. Inr (max 10 (min 1000 r)))"

text \<open>\<open>bytes([...])\<close> raises \<open>ValueError\<close> for an element outside \<open>range(256)\<close>.\<close>

definition py_bytes :: "int list \<Rightarrow> error + int list" where
  "py_bytes xs = (if list_all (\<lambda>x. 0 \<le> x \<and> x < 256) xs then Inr xs else Inl ValueError)"

text \<open>
  Lines 56-66. \<open>>>\<close> on a Python integer is the arithmetic shift, \<open>drop_bit\<close> on \<open>int\<close>.
  An exception of line 58 ends the call before the bytes are built.
\<close>

definition build_packet ::
    "int \<Rightarrow> int \<Rightarrow> int \<Rightarrow> int \<Rightarrow> pyfloat \<Rightarrow> int \<Rightarrow> bool \<Rightarrow> error + int list" where
  "build_packet num_mice logic_mode input_mode output_mode amplify quad_scale save =
     bind_err (amplify_x100 amplify) (\<lambda>a100.
       let q_lo = quad_scale AND 0xFF;
           q_hi = drop_bit 8 quad_scale AND 0xFF
       in py_bytes
            [UART_CONFIG_SYNC1, UART_CONFIG_SYNC2, UART_CONFIG_CMD,
             num_mice AND 0xFF, logic_mode AND 0xFF, input_mode AND 0xFF, output_mode AND 0xFF,
             a100 AND 0xFF, q_lo, q_hi,
             if save then 1 else 0])"

subsection \<open>main (lines 69-110)\<close>

text \<open>
  What \<open>load_yaml\<close> stores for a key (lines 46-52): an \<open>int\<close>, a \<open>float\<close>, or the text
  itself when it is neither.
\<close>

datatype yaml_value = YInt int | YFloat pyfloat | YStr string

text \<open>
  \<open>int(v)\<close> and \<open>float(v)\<close>. \<open>int\<close> of a float truncates towards zero and raises for an
  infinity or NaN; \<open>float\<close> of an integer rounds to the nearest float and raises when that
  is beyond the finite ones. A string reaches the dictionary only when \<open>float\<close> rejected
  it, and then \<open>int\<close> and \<open>float\<close> reject it again.
\<close>

fun py_int :: "yaml_value \<Rightarrow> error + int" where
  "py_int (YInt n) = Inr n"
| "py_int (YFloat (Finite x)) = Inr (if 0 \<le> x then \<lfloor>x\<rfloor> else \<lceil>x\<rceil>)"
| "py_int (YFloat PosInf) = Inl OverflowError"
| "py_int (YFloat NegInf) = Inl OverflowError"
| "py_int (YFloat NaN) = Inl ValueError"
| "py_int (YStr s) = Inl ValueError"

fun py_float :: "yaml_value \<Rightarrow> error + pyfloat" where
  "py_float (YInt n) =
     (case float_of_rat (of_int n) of Finite x \<Rightarrow> Inr (Finite x) | _ \<Rightarrow> Inl OverflowError)"
| "py_float (YFloat x) = Inr x"
| "py_float (YStr s) = Inl ValueError"

definition lower_char :: "char \<Rightarrow> char" where
  "lower_char c =
     (let n = (of_char c :: nat) in if 65 \<le> n \<and> n \<le> 90 then char_of (n + 32) else c)"

text \<open>
  \<open>TABLE.get(str(v).lower(), 0)\<close> (lines 90-98). The text of a number consists of digits,
  sign, point and exponent (or is \<open>inf\<close> or \<open>nan\<close>), which is no key of the three tables.
\<close>

fun table_get :: "(string \<times> int) list \<Rightarrow> yaml_value \<Rightarrow> int" where
  "table_get tbl (YStr s) = (case map_of tbl (map lower_char s) of None \<Rightarrow> 0 | Some c \<Rightarrow> c)"
| "table_get tbl (YInt n) = 0"
| "table_get tbl (YFloat x) = 0"

text \<open>\<open>TABLE[name]\<close>, which raises \<open>KeyError\<close> for a missing key.\<close>

definition table_index :: "(string \<times> int) list \<Rightarrow> string \<Rightarrow> error + int" where
  "table_index tbl name = (case map_of tbl name of None \<Rightarrow> Inl KeyError | Some c \<Rightarrow> Inr c)"

text \<open>\<open>cfg.get(key, default)\<close>.\<close>

definition cfg_get :: "(string \<rightharpoonup> yaml_value) \<Rightarrow> string \<Rightarrow> yaml_value \<Rightarrow> yaml_value" where
  "cfg_get cfg k d = (case cfg k of None \<Rightarrow> d | Some v \<Rightarrow> v)"

text \<open>The parsed command line (lines 71-80); an option that was not given is \<open>None\<close>.\<close>

record args =
  arg_num_mice :: "int option"
  arg_logic_mode :: "string option"
  arg_input_mode :: "string option"
  arg_output_mode :: "string option"
  arg_amplify :: "pyfloat option"
  arg_quad_scale :: "int option"
  arg_no_save :: bool

text \<open>
  \<open>choices=list(TABLE)\<close> (lines 73-75): \<open>parse_args\<close> ends the program for a mode name
  that is not a key of its table.
\<close>

definition in_choices :: "(string \<times> int) list \<Rightarrow> string option \<Rightarrow> bool" where
  "in_choices tbl opt = (case opt of None \<Rightarrow> True | Some s \<Rightarrow> List.member (map fst tbl) s)"

definition parse_args_ok :: "args \<Rightarrow> bool" where
  "parse_args_ok a =
     (in_choices LOGIC_MODES (arg_logic_mode a) \<and>
      in_choices INPUT_MODES (arg_input_mode a) \<and>
      in_choices OUTPUT_MODES (arg_output_mode a))"

text \<open>Line 89: the number of mice that the run uses.\<close>

definition resolve_num_mice :: "args \<Rightarrow> (string \<rightharpoonup> yaml_value) \<Rightarrow> error + int" where
  "resolve_num_mice a cfg =
     (case arg_num_mice a of Some n \<Rightarrow> Inr n | None \<Rightarrow> py_int (cfg_get cfg ''num_mice'' (YInt 6)))"

text \<open>Lines 90-98, for one of the three mode tables.\<close>

definition resolve_mode ::
    "(string \<times> int) list \<Rightarrow> string option \<Rightarrow> (string \<rightharpoonup> yaml_value) \<Rightarrow> string \<Rightarrow> string
       \<Rightarrow> error + int" where
  "resolve_mode tbl opt cfg k d =
     (case opt of Some name \<Rightarrow> table_index tbl name
      | None \<Rightarrow> Inr (table_get tbl (cfg_get cfg k (YStr d))))"

text \<open>
  Lines 80-109 of \<open>main\<close>. \<open>Inr packet\<close>: \<open>packet\<close> was written to the port. \<open>Inl e\<close>: the
  run ended with \<open>e\<close> before \<open>ser.write\<close> was reached, so nothing was written.
\<close>

definition send_settings_main :: "args \<Rightarrow> (string \<rightharpoonup> yaml_value) \<Rightarrow> error + int list" where
  "send_settings_main a cfg =
     (if \<not> parse_args_ok a then Inl ArgparseError
      else
        bind_err (resolve_num_mice a cfg) (\<lambda>num_mice.
        bind_err (resolve_mode LOGIC_MODES (arg_logic_mode a) cfg ''logic_mode'' ''sum'') (\<lambda>logic_mode.
        bind_err (resolve_mode INPUT_MODES (arg_input_mode a) cfg ''input_mode'' ''uart'') (\<lambda>input_mode.
        bind_err (resolve_mode OUTPUT_MODES (arg_output_mode a) cfg ''output_mode'' ''combined'') (\<lambda>output_mode.
        bind_err (case arg_amplify a of Some x \<Rightarrow> Inr x
                  | None \<Rightarrow> py_float (cfg_get cfg ''amplify'' (YFloat (Finite 1)))) (\<lambda>amplify.
        bind_err (case arg_quad_scale a of Some q \<Rightarrow> Inr q
                  | None \<Rightarrow> py_int (cfg_get cfg ''quad_scale'' (YInt 2))) (\<lambda>quad_scale.
        if num_mice < 2 \<or> num_mice > 6 then Inl SystemExit
        else
          let quad_scale = (if quad_scale < 1 then 1 else quad_scale) in
          build_packet num_mice logic_mode input_mode output_mode amplify quad_scale
            (\<not> arg_no_save a))))))))"

section \<open>Closed forms used in the proofs\<close>

text \<open>
  The button and wheel bytes that the loops of \<open>make_packet\<close> build up, and the whole
  packet, written without the bytearray stores.
\<close>

definition buttons_field :: "slot list \<Rightarrow> int" where
  "buttons_field state = foldl (\<lambda>b s. b OR (btns s AND 0x07)) 0 state"

definition wheel_field :: "slot list \<Rightarrow> int" where
  "wheel_field state = (\<Sum>s\<leftarrow>state. saturate (wheel s)) mod 256"

definition frame_of :: "slot list \<Rightarrow> int list" where
  "frame_of state = SYNC # concat (map (\<lambda>s. [dx s AND 0xFF, dy s AND 0xFF]) state)
      @ [buttons_field state, wheel_field state]"

text \<open>The signed delta that one event adds to \<open>dx\<close> and to \<open>dy\<close> of its slot.\<close>

fun x_delta :: "event \<Rightarrow> int" where
  "x_delta (EV_REL REL_X v) = v"
| "x_delta e = 0"

fun y_delta :: "event \<Rightarrow> int" where
  "y_delta (EV_REL REL_Y v) = v"
| "y_delta e = 0"

text \<open>What a pass of the loop reads for a slot: nothing when the device is absent or not ready.\<close>

definition events_of :: "event list option \<Rightarrow> event list" where
  "events_of r = (case r of None \<Rightarrow> [] | Some evs \<Rightarrow> evs)"

section \<open>Valid inputs and the waits of the specification\<close>

text \<open>
  The valid ranges of a slot (section 3 of the specification): the three accumulators
  within a signed byte and the buttons a 3-bit mask.
\<close>

definition valid_slot :: "slot \<Rightarrow> bool" where
  "valid_slot s =
     (- 128 \<le> dx s \<and> dx s \<le> 127 \<and> - 128 \<le> dy s \<and> dy s \<le> 127 \<and>
      0 \<le> btns s \<and> btns s \<le> 7 \<and> - 128 \<le> wheel s \<and> wheel s \<le> 127)"

definition valid_snapshot :: "slot list \<Rightarrow> bool" where
  "valid_snapshot state = (length state = 6 \<and> list_all valid_slot state)"

text \<open>The command line that gives \<open>--port\<close> and nothing else.\<close>

definition default_args :: args where
  "default_args =
     \<lparr>arg_num_mice = None, arg_logic_mode = None, arg_input_mode = None, arg_output_mode = None,
      arg_amplify = None, arg_quad_scale = None, arg_no_save = False\<rparr>"

text \<open>
  The wait of section 4.1 of the specification, in its words: the time remaining at clock
  reading \<open>now\<close> until the deadline \<open>start + (n + 1) * T\<close>.
\<close>

definition deadline_remaining :: "rat \<Rightarrow> nat \<Rightarrow> rat \<Rightarrow> rat \<Rightarrow> rat" where
  "deadline_remaining start n T now = start + (of_nat n + 1) * T - now"

section \<open>Properties of host_send_mice.py\<close>

lemma and_ff_mod: "(x::int) AND 0xFF = x mod 256"
proof -
  have "mask 8 = (255::int)" by (simp add: mask_eq_exp_minus_1)
  then show ?thesis using take_bit_eq_mask[of 8 x] take_bit_eq_mod[of 8 x] by simp
qed

lemma and_7_mod: "(x::int) AND 0x07 = x mod 8"
proof -
  have "mask 3 = (7::int)" by (simp add: mask_eq_exp_minus_1)
  then show ?thesis using take_bit_eq_mask[of 3 x] take_bit_eq_mod[of 3 x] by simp
qed

lemma or_mask3_range:
  fixes b x :: int
  assumes "0 \<le> b" "b < 8"
  shows "0 \<le> (b OR (x AND 0x07)) \<and> (b OR (x AND 0x07)) < 8"
proof -
  have x: "0 \<le> x AND 0x07" "x AND 0x07 < 2 ^ 3" by (simp_all add: and_7_mod)
  have "b OR (x AND 0x07) < 2 ^ 3" using assms x by (intro OR_upper) simp_all
  then show ?thesis using assms x by simp
qed

lemma or3_nonneg: "0 \<le> (b::int) \<Longrightarrow> b < 8 \<Longrightarrow> 0 \<le> (b OR ((x::int) AND 0x07))"
  and or3_lt8: "0 \<le> b \<Longrightarrow> b < 8 \<Longrightarrow> (b OR (x AND 0x07)) < 8"
  and or3_lt256: "0 \<le> b \<Longrightarrow> b < 8 \<Longrightarrow> (b OR (x AND 0x07)) < 256"
  using or_mask3_range[of b x] by simp_all

lemma and_ff_range: "0 \<le> (x::int) AND 0xFF" "(x::int) AND 0xFF < 256"
  by (simp_all add: and_ff_mod)

lemma length6: "length xs = 6 \<Longrightarrow> \<exists>a b c d e f. xs = [a, b, c, d, e, f]"
  by (auto simp: length_Suc_conv eval_nat_numeral)

lemma upt6: "[0..<NUM_MICE_MAX] = [0, 1, 2, 3, 4, 5]"
  by (simp add: NUM_MICE_MAX_def upt_rec)

lemma setitem_byte: "k < length buf \<Longrightarrow> 0 \<le> v \<Longrightarrow> v < 256 \<Longrightarrow> setitem buf k v = Inr (buf[k := v])"
  by (simp add: setitem_def)

lemma bind_err_simps [simp]: "bind_err (Inr a) g = g a" "bind_err (Inl x) g = Inl x"
  by (simp_all add: bind_err_def)

lemma write_motion_eq:
  assumes "length buf = 15"
  shows "write_motion [a, b, c, d, e, f] buf =
    Inr (buf[1 := dx a AND 0xFF, 2 := dy a AND 0xFF, 3 := dx b AND 0xFF, 4 := dy b AND 0xFF,
       5 := dx c AND 0xFF, 6 := dy c AND 0xFF, 7 := dx d AND 0xFF, 8 := dy d AND 0xFF,
       9 := dx e AND 0xFF, 10 := dy e AND 0xFF, 11 := dx f AND 0xFF, 12 := dy f AND 0xFF])"
  using assms
  apply (simp add: write_motion_def upt6 getitem_def setitem_byte and_ff_range)
  apply (simp add: numeral_2_eq_2)
  done

lemma write_buttons_eq:
  assumes "length buf = 15"
  shows "write_buttons [a, b, c, d, e, f] buf = Inr (buf[13 := buttons_field [a, b, c, d, e, f]])"
  using assms
  by (simp add: write_buttons_def upt6 getitem_def setitem_byte or3_nonneg or3_lt8 or3_lt256 buttons_field_def)

lemma write_wheel_eq:
  assumes "length buf = 15"
  shows "write_wheel [a, b, c, d, e, f] buf = Inr (buf[14 := wheel_field [a, b, c, d, e, f]])"
  using assms
  apply (simp add: write_wheel_def upt6 getitem_def setitem_byte and_ff_range wheel_field_def)
  apply (simp add: and_ff_mod mod_simps add.assoc)
  done

lemma sign_fix_eq:
  assumes "length buf = 15" "0 \<le> buf ! 14" "buf ! 14 < 256"
  shows "sign_fix buf = (if 128 \<le> buf ! 14 then Inl ValueError else Inr buf)"
  using assms by (simp add: sign_fix_def getitem_def setitem_def)

lemma wheel_field_range: "0 \<le> wheel_field st" "wheel_field st < 256"
  by (simp_all add: wheel_field_def)

lemma make_packet_explicit:
  "make_packet [a, b, c, d, e, f] =
     (if 128 \<le> wheel_field [a, b, c, d, e, f] then Inl ValueError
      else Inr (frame_of [a, b, c, d, e, f]))"
  apply (simp add: make_packet_def setitem_byte PACKET_LEN_def SYNC_def write_motion_eq
       write_buttons_eq write_wheel_eq sign_fix_eq wheel_field_range)
  apply (simp add: frame_of_def SYNC_def eval_nat_numeral)
  done

lemma make_packet_eq:
  assumes "length state = 6"
  shows "make_packet state =
     (if 128 \<le> wheel_field state then Inl ValueError else Inr (frame_of state))"
proof -
  from length6 [OF assms] obtain a b c d e f where "state = [a, b, c, d, e, f]" by blast
  then show ?thesis by (simp only: make_packet_explicit)
qed

lemma clamp_motion_map:
  assumes "length state = 6"
  shows "clamp_motion state = map (\<lambda>s. s\<lparr>dx := saturate (dx s), dy := saturate (dy s)\<rparr>) state"
proof -
  from length6 [OF assms] obtain a b c d e f where "state = [a, b, c, d, e, f]" by blast
  then show ?thesis by (simp add: clamp_motion_def upt6 eval_nat_numeral)
qed

lemma reset_accum_map:
  assumes "length state = 6"
  shows "reset_accum state = map (\<lambda>s. s\<lparr>dx := 0, dy := 0, wheel := 0\<rparr>) state"
proof -
  from length6 [OF assms] obtain a b c d e f where "state = [a, b, c, d, e, f]" by blast
  then show ?thesis by (simp add: reset_accum_def upt6 eval_nat_numeral)
qed

lemma length_drain: "length (drain k rs state) = length state"
  by (induction k rs state rule: drain.induct) simp_all

lemma drain_nth:
  "j < length state \<Longrightarrow>
   drain k rs state ! j =
     (if k \<le> j \<and> j - k < length rs then fold on_event (events_of (rs ! (j - k))) (state ! j)
      else state ! j)"
proof (induction k rs state rule: drain.induct)
  case (1 i state)
  then show ?case by simp
next
  case (2 i rs state)
  then show ?case by (auto simp: events_of_def nth_Cons' Suc_diff_le)
next
  case (3 i evs rs state)
  then show ?case by (auto simp: events_of_def nth_Cons' nth_list_update)
qed

lemma fold_on_event_dx: "dx (fold on_event evs s) = dx s + sum_list (map x_delta evs)"
proof (induction evs arbitrary: s)
  case Nil
  then show ?case by simp
next
  case (Cons e evs)
  show ?case by (cases "(e, s)" rule: on_event.cases) (simp_all add: Cons split: option.splits)
qed

lemma fold_on_event_dy: "dy (fold on_event evs s) = dy s + sum_list (map y_delta evs)"
proof (induction evs arbitrary: s)
  case Nil
  then show ?case by simp
next
  case (Cons e evs)
  show ?case by (cases "(e, s)" rule: on_event.cases) (simp_all add: Cons split: option.splits)
qed

lemma pairs_nth:
  "i < length st \<Longrightarrow>
   (concat (map (\<lambda>s. [g s, h s]) st) @ t) ! (i * 2) = g (st ! i) \<and>
   (concat (map (\<lambda>s. [g s, h s]) st) @ t) ! (1 + i * 2) = h (st ! i)"
proof (induction st arbitrary: i)
  case Nil
  then show ?case by simp
next
  case (Cons s st)
  then show ?case by (cases i) simp_all
qed

lemma frame_of_motion:
  assumes "i < length st"
  shows "frame_of st ! (1 + i * 2) = dx (st ! i) AND 0xFF"
    and "frame_of st ! (2 + i * 2) = dy (st ! i) AND 0xFF"
  using pairs_nth [OF assms, of "\<lambda>s. dx s AND 0xFF" "\<lambda>s. dy s AND 0xFF"]
  by (simp_all add: frame_of_def)


lemma loop_iteration_eq:
  assumes "length state = 6"
  shows "loop_iteration reads state =
     (let st = clamp_motion (drain 0 reads state) in
      if 128 \<le> wheel_field st then Inl ValueError
      else Inr (frame_of st, map (\<lambda>s. s\<lparr>dx := 0, dy := 0, wheel := 0\<rparr>) st))"
proof -
  have len: "length (clamp_motion (drain 0 reads state)) = 6"
    using assms by (simp add: clamp_motion_map length_drain)
  show ?thesis
    by (simp add: loop_iteration_def Let_def make_packet_eq [OF len] reset_accum_map [OF len])
qed

lemma int8_byte:
  fixes c :: int
  assumes "- 128 \<le> c" "c \<le> 127"
  shows "c AND 0xFF = uint (word_of_int c :: 8 word)"
    and "sint (word_of_int (c AND 0xFF) :: 8 word) = c"
proof -
  show "c AND 0xFF = uint (word_of_int c :: 8 word)"
    by (simp add: and_ff_mod uint_word_of_int take_bit_eq_mod)
  have "(word_of_int (c AND 0xFF) :: 8 word) = word_of_int c"
    by (simp add: and_ff_mod word_of_int_eq_iff take_bit_eq_mod)
  moreover have "sint (word_of_int c :: 8 word) = c"
    using assms by (simp add: sint_sbintrunc' signed_take_bit_int_eq_self)
  ultimately show "sint (word_of_int (c AND 0xFF) :: 8 word) = c" by simp
qed

lemma saturate_clamp: "saturate w = max (- 128) (min 127 w)"
  by (simp add: saturate_def)

text \<open>
  C1: the encoder of \<open>host_send_mice.py\<close> is not total on clamped snapshots. With a
  wheel accumulator of \<open>-1\<close> in slot 0 and zeros elsewhere, the store of line 80 puts
  \<open>255 - 256\<close> into the bytearray and raises \<open>ValueError\<close>; a single wheel event of \<open>-1\<close>
  brings the loop there.
\<close>

theorem make_packet_raises_on_negative_wheel:
  "make_packet [\<lparr>dx = 0, dy = 0, btns = 0, wheel = - 1\<rparr>, zero_slot, zero_slot, zero_slot,
                zero_slot, zero_slot] = Inl ValueError
   \<and> loop_iteration [Some [EV_REL REL_WHEEL (- 1)], None, None, None, None, None] init_state
       = Inl ValueError"
  by code_simp

text \<open>
  C2: for wheel accumulators 100 and 100 the running sum modulo 256 is 200, which the
  code tries to store as \<open>200 - 256\<close>: no packet is produced, so no byte at offset 14
  carries the signed value \<open>-56\<close>. With 100 and 27 the sum 127 is below 128 and is emitted
  as it is.
\<close>

theorem wheel_byte_not_emitted_when_wrapped:
  "make_packet [\<lparr>dx = 0, dy = 0, btns = 0, wheel = 100\<rparr>, \<lparr>dx = 0, dy = 0, btns = 0, wheel = 100\<rparr>,
                zero_slot, zero_slot, zero_slot, zero_slot] = Inl ValueError
   \<and> make_packet [\<lparr>dx = 0, dy = 0, btns = 0, wheel = 100\<rparr>, \<lparr>dx = 0, dy = 0, btns = 0, wheel = 27\<rparr>,
                zero_slot, zero_slot, zero_slot, zero_slot]
       = Inr [0xAA, 0, 0, 0, 0, 0, 0, 0, 0, 0, 0, 0, 0, 0, 127]"
  by code_simp

text \<open>
  Two X events of +100 for slot 0 that arrive a few milliseconds apart, within one period
  of 20 ms: \<open>select\<close> returns for each of them, so they are read in two passes, and each
  pass writes its own packet with the byte 100 at offset 1. No packet carries the clamped
  sum of the period, which is 127.
\<close>

theorem motion_of_one_period_split_over_two_packets:
  "run_passes
     [[Some [EV_REL REL_X 100], None, None, None, None, None],
      [Some [EV_REL REL_X 100], None, None, None, None, None]] init_state
     = Inr ([[0xAA, 100, 0, 0, 0, 0, 0, 0, 0, 0, 0, 0, 0, 0, 0],
             [0xAA, 100, 0, 0, 0, 0, 0, 0, 0, 0, 0, 0, 0, 0, 0]], init_state)
   \<and> uint (word_of_int (max (- 128) (min 127 (100 + 100))) :: 8 word) = 127"
proof -
  have pass: "loop_iteration [Some [EV_REL REL_X 100], None, None, None, None, None] init_state
      = Inr ([0xAA, 100, 0, 0, 0, 0, 0, 0, 0, 0, 0, 0, 0, 0, 0], init_state)"
    by code_simp
  show ?thesis by (simp add: pass)
qed

text \<open>
  C5: as amended. For the events that one pass of the loop reads, that is the events
  between two consecutive packets, starting with the motion accumulators of slot \<open>i\<close> at
  zero (as the reset leaves them): whatever events the pass reads for that slot and for
  the other slots, the bytes at offsets \<open>1 + 2i\<close> and \<open>2 + 2i\<close> of the packet it writes are
  the two's-complement bytes of the sums of the slot's X and Y deltas clamped to
  \<open>[-128, 127]\<close>: only the sum of the deltas matters, not how it is split into events.
\<close>

theorem motion_bytes_clamped_sum:
  assumes "length state = 6" and "i < 6"
    and "dx (state ! i) = 0" and "dy (state ! i) = 0"
    and "length reads = 6"
    and "loop_iteration reads state = Inr (pkt, state')"
  shows "pkt ! (1 + i * 2) =
           uint (word_of_int (max (- 128) (min 127 (\<Sum>e\<leftarrow>events_of (reads ! i). x_delta e))) :: 8 word)
       \<and> pkt ! (2 + i * 2) =
           uint (word_of_int (max (- 128) (min 127 (\<Sum>e\<leftarrow>events_of (reads ! i). y_delta e))) :: 8 word)
       \<and> sint (word_of_int (pkt ! (1 + i * 2)) :: 8 word) =
           max (- 128) (min 127 (\<Sum>e\<leftarrow>events_of (reads ! i). x_delta e))
       \<and> sint (word_of_int (pkt ! (2 + i * 2)) :: 8 word) =
           max (- 128) (min 127 (\<Sum>e\<leftarrow>events_of (reads ! i). y_delta e))"
proof -
  let ?d = "drain 0 reads state"
  let ?st = "clamp_motion ?d"
  have len: "length ?d = 6" using assms(1) by (simp add: length_drain)
  have pkt: "pkt = frame_of ?st"
    using assms(6) by (simp add: loop_iteration_eq [OF assms(1)] Let_def split: if_splits)
  have i: "i < length ?st" using len assms(2) by (simp add: clamp_motion_map)
  have di: "?d ! i = fold on_event (events_of (reads ! i)) (state ! i)"
    using assms(1,2,5) by (simp add: drain_nth)
  have x: "dx (?st ! i) = max (- 128) (min 127 (\<Sum>e\<leftarrow>events_of (reads ! i). x_delta e))"
    using len assms(2,3) by (simp add: clamp_motion_map di fold_on_event_dx saturate_clamp)
  have y: "dy (?st ! i) = max (- 128) (min 127 (\<Sum>e\<leftarrow>events_of (reads ! i). y_delta e))"
    using len assms(2,4) by (simp add: clamp_motion_map di fold_on_event_dy saturate_clamp)
  have bx: "pkt ! (1 + i * 2) = dx (?st ! i) AND 0xFF"
    and by': "pkt ! (2 + i * 2) = dy (?st ! i) AND 0xFF"
    using frame_of_motion [OF i] by (simp_all add: pkt)
  have rx: "- 128 \<le> dx (?st ! i)" "dx (?st ! i) \<le> 127" by (simp_all add: x)
  have ry: "- 128 \<le> dy (?st ! i)" "dy (?st ! i) \<le> 127" by (simp_all add: y)
  show ?thesis
    using int8_byte [OF rx] int8_byte [OF ry] by (simp only: bx by' x y)
qed

theorem motion_bytes_clamped_sum_witness:
  "length init_state = 6 \<and> (0::nat) < 6 \<and> dx (init_state ! 0) = 0 \<and> dy (init_state ! 0) = 0
   \<and> length [Some [EV_REL REL_X 100, EV_REL REL_Y (- 7), EV_KEY BTN_LEFT 1, EV_REL REL_X 100],
              None, Some [EV_REL REL_X 5], None, None, None] = 6
   \<and> loop_iteration
        [Some [EV_REL REL_X 100, EV_REL REL_Y (- 7), EV_KEY BTN_LEFT 1, EV_REL REL_X 100],
         None, Some [EV_REL REL_X 5], None, None, None] init_state
       = Inr ([0xAA, 127, 249, 0, 0, 5, 0, 0, 0, 0, 0, 0, 0, 1, 0],
              [\<lparr>dx = 0, dy = 0, btns = 1, wheel = 0\<rparr>, zero_slot, zero_slot, zero_slot,
               zero_slot, zero_slot])
   \<and> [0xAA, 127, 249, 0, 0, 5, 0, 0, 0, 0, 0, 0, 0, 1, 0::int] ! (1 + 0 * 2)
       = uint (word_of_int (max (- 128) (min 127 (100 + 100))) :: 8 word)
   \<and> sint (word_of_int ([0xAA, 127, 249, 0, 0, 5, 0, 0, 0, 0, 0, 0, 0, 1, 0::int] ! (2 + 0 * 2)) :: 8 word)
       = - 7"
proof -
  let ?reads = "[Some [EV_REL REL_X 100, EV_REL REL_Y (- 7), EV_KEY BTN_LEFT 1, EV_REL REL_X 100],
                 None, Some [EV_REL REL_X 5], None, None, None]"
  let ?pkt = "[0xAA, 127, 249, 0, 0, 5, 0, 0, 0, 0, 0, 0, 0, 1, 0::int]"
  let ?st = "[\<lparr>dx = 0, dy = 0, btns = 1, wheel = 0\<rparr>, zero_slot, zero_slot, zero_slot,
              zero_slot, zero_slot]"
  have h1: "length init_state = 6" by (simp add: init_state_def NUM_MICE_MAX_def)
  have h2: "(0::nat) < 6" by simp
  have h3: "dx (init_state ! 0) = 0" and h4: "dy (init_state ! 0) = 0"
    by (simp_all add: init_state_def NUM_MICE_MAX_def zero_slot_def)
  have h5: "length ?reads = 6" by simp
  have h6: "loop_iteration ?reads init_state = Inr (?pkt, ?st)" by code_simp
  show ?thesis
    using h1 h3 h4 h6 motion_bytes_clamped_sum [OF h1 h2 h3 h4 h5 h6]
    by (simp add: events_of_def)
qed

text \<open>
  C6: when a pass of the loop has written its packet, the state it leaves has \<open>dx\<close>,
  \<open>dy\<close> and \<open>wheel\<close> of every slot at zero and \<open>btns\<close> of every slot as the events of
  the pass left it; a slot has no other field.
\<close>

theorem reset_after_frame:
  assumes "length state = 6"
    and "loop_iteration reads state = Inr (pkt, state')"
  shows "state' = map (\<lambda>s. \<lparr>dx = 0, dy = 0, btns = btns s, wheel = 0\<rparr>) (drain 0 reads state)"
proof -
  have len: "length (drain 0 reads state) = 6" using assms(1) by (simp add: length_drain)
  have "state' = map (\<lambda>s. s\<lparr>dx := 0, dy := 0, wheel := 0\<rparr>) (clamp_motion (drain 0 reads state))"
    using assms(2) by (simp add: loop_iteration_eq [OF assms(1)] Let_def split: if_splits)
  then show ?thesis by (simp add: clamp_motion_map [OF len] comp_def)
qed


theorem reset_after_frame_witness:
  "length init_state = 6
   \<and> loop_iteration
        [Some [EV_REL REL_X 100, EV_KEY BTN_RIGHT 1, EV_REL REL_WHEEL 3], None, None, None, None,
         Some [EV_KEY BTN_MIDDLE 1, EV_REL REL_Y 9]] init_state
       = Inr ([0xAA, 100, 0, 0, 0, 0, 0, 0, 0, 0, 0, 0, 9, 6, 3],
              [\<lparr>dx = 0, dy = 0, btns = 2, wheel = 0\<rparr>, zero_slot, zero_slot, zero_slot,
               zero_slot, \<lparr>dx = 0, dy = 0, btns = 4, wheel = 0\<rparr>])
   \<and> [\<lparr>dx = 0, dy = 0, btns = 2, wheel = 0\<rparr>, zero_slot, zero_slot, zero_slot,
               zero_slot, \<lparr>dx = 0, dy = 0, btns = 4, wheel = 0\<rparr>]
       = map (\<lambda>s. \<lparr>dx = 0, dy = 0, btns = btns s, wheel = 0\<rparr>)
           (drain 0 [Some [EV_REL REL_X 100, EV_KEY BTN_RIGHT 1, EV_REL REL_WHEEL 3], None, None,
                     None, None, Some [EV_KEY BTN_MIDDLE 1, EV_REL REL_Y 9]] init_state)"
proof -
  let ?reads = "[Some [EV_REL REL_X 100, EV_KEY BTN_RIGHT 1, EV_REL REL_WHEEL 3], None, None, None,
                 None, Some [EV_KEY BTN_MIDDLE 1, EV_REL REL_Y 9]]"
  have h1: "length init_state = 6" by (simp add: init_state_def NUM_MICE_MAX_def)
  have h2: "loop_iteration ?reads init_state
       = Inr ([0xAA, 100, 0, 0, 0, 0, 0, 0, 0, 0, 0, 0, 9, 6, 3],
              [\<lparr>dx = 0, dy = 0, btns = 2, wheel = 0\<rparr>, zero_slot, zero_slot, zero_slot,
               zero_slot, \<lparr>dx = 0, dy = 0, btns = 4, wheel = 0\<rparr>])" by code_simp
  show ?thesis using h1 h2 reset_after_frame [OF h1 h2] by simp
qed

text \<open>
  Two valid snapshots that differ (the pressed button and the wheel count sit in slot 0
  of one and in slot 1 of the other) and give the same packet: no decoder tells them apart.
\<close>

theorem frame_not_injective:
  "valid_snapshot [\<lparr>dx = 0, dy = 0, btns = 1, wheel = 2\<rparr>, zero_slot, zero_slot, zero_slot, zero_slot, zero_slot]
   \<and> valid_snapshot [zero_slot, \<lparr>dx = 0, dy = 0, btns = 1, wheel = 2\<rparr>, zero_slot, zero_slot, zero_slot, zero_slot]
   \<and> [\<lparr>dx = 0, dy = 0, btns = 1, wheel = 2\<rparr>, zero_slot, zero_slot, zero_slot, zero_slot, zero_slot]
       \<noteq> [zero_slot, \<lparr>dx = 0, dy = 0, btns = 1, wheel = 2\<rparr>, zero_slot, zero_slot, zero_slot, zero_slot]
   \<and> make_packet [\<lparr>dx = 0, dy = 0, btns = 1, wheel = 2\<rparr>, zero_slot, zero_slot, zero_slot, zero_slot, zero_slot]
       = Inr [0xAA, 0, 0, 0, 0, 0, 0, 0, 0, 0, 0, 0, 0, 1, 2]
   \<and> make_packet [zero_slot, \<lparr>dx = 0, dy = 0, btns = 1, wheel = 2\<rparr>, zero_slot, zero_slot, zero_slot, zero_slot]
       = Inr [0xAA, 0, 0, 0, 0, 0, 0, 0, 0, 0, 0, 0, 0, 1, 2]"
  by code_simp

lemma foldl_or_valid:
  "list_all valid_slot st \<Longrightarrow>
   foldl (\<lambda>b s. b OR (btns s AND 0x07)) b0 st = foldl (\<lambda>b s. b OR btns s) b0 st"
proof (induction st arbitrary: b0)
  case Nil
  then show ?case by simp
next
  case (Cons s st)
  then have "btns s AND 0x07 = btns s" by (simp add: valid_slot_def and_7_mod)
  with Cons show ?case by simp
qed

lemma sum_saturate_valid:
  "list_all valid_slot st \<Longrightarrow> (\<Sum>s\<leftarrow>st. saturate (wheel s)) = (\<Sum>s\<leftarrow>st. wheel s)"
  by (induction st) (simp_all add: valid_slot_def saturate_def)

lemma frame_of_tail:
  assumes "length st = 6"
  shows "frame_of st ! 13 = buttons_field st" and "frame_of st ! 14 = wheel_field st"
    and "length (frame_of st) = 15" and "frame_of st ! 0 = 0xAA"
proof -
  from length6 [OF assms] obtain a b c d e f where "st = [a, b, c, d, e, f]" by blast
  then show "frame_of st ! 13 = buttons_field st" and "frame_of st ! 14 = wheel_field st"
    and "length (frame_of st) = 15" and "frame_of st ! 0 = 0xAA"
    by (simp_all add: frame_of_def SYNC_def)
qed

text \<open>
  C7: as amended. For a valid snapshot whose packet is produced, reading the bytes at
  offsets \<open>1 + 2i\<close> and \<open>2 + 2i\<close> as signed bytes gives back \<open>dx\<close> and \<open>dy\<close> of slot \<open>i\<close>
  exactly; of the buttons the packet holds the OR of the six masks, and of the wheel
  accumulators their sum modulo 256.
\<close>

theorem frame_recovers_motion_and_combined_fields:
  assumes "valid_snapshot state" and "i < 6" and "make_packet state = Inr buf"
  shows "sint (word_of_int (buf ! (1 + i * 2)) :: 8 word) = dx (state ! i)
       \<and> sint (word_of_int (buf ! (2 + i * 2)) :: 8 word) = dy (state ! i)
       \<and> buf ! 13 = foldl (\<lambda>b s. b OR btns s) 0 state
       \<and> buf ! 14 = (\<Sum>s\<leftarrow>state. wheel s) mod 256"
proof -
  have len: "length state = 6" and all: "list_all valid_slot state"
    using assms(1) by (simp_all add: valid_snapshot_def)
  have buf: "buf = frame_of state"
    using assms(3) by (simp add: make_packet_eq [OF len] split: if_splits)
  have i: "i < length state" using len assms(2) by simp
  have "valid_slot (state ! i)" using all i by (simp add: list_all_length)
  then have rx: "- 128 \<le> dx (state ! i)" "dx (state ! i) \<le> 127"
    and ry: "- 128 \<le> dy (state ! i)" "dy (state ! i) \<le> 127"
    by (simp_all add: valid_slot_def)
  have "buf ! 13 = foldl (\<lambda>b s. b OR btns s) 0 state"
    by (simp add: buf frame_of_tail [OF len] buttons_field_def foldl_or_valid [OF all])
  moreover have "buf ! 14 = (\<Sum>s\<leftarrow>state. wheel s) mod 256"
    by (simp add: buf frame_of_tail [OF len] wheel_field_def sum_saturate_valid [OF all])
  ultimately show ?thesis
    using int8_byte(2) [OF rx] int8_byte(2) [OF ry] frame_of_motion [OF i]
    by (simp add: buf)
qed

theorem frame_recovers_motion_and_combined_fields_witness:
  "valid_snapshot [\<lparr>dx = - 3, dy = 100, btns = 1, wheel = 2\<rparr>, zero_slot, zero_slot,
                   \<lparr>dx = 127, dy = - 128, btns = 4, wheel = 5\<rparr>, zero_slot, zero_slot]
   \<and> (3::nat) < 6
   \<and> make_packet [\<lparr>dx = - 3, dy = 100, btns = 1, wheel = 2\<rparr>, zero_slot, zero_slot,
                   \<lparr>dx = 127, dy = - 128, btns = 4, wheel = 5\<rparr>, zero_slot, zero_slot]
       = Inr [0xAA, 253, 100, 0, 0, 0, 0, 127, 128, 0, 0, 0, 0, 5, 7]
   \<and> sint (word_of_int ([0xAA, 253, 100, 0, 0, 0, 0, 127, 128, 0, 0, 0, 0, 5, 7::int] ! (1 + 3 * 2)) :: 8 word) = 127
   \<and> sint (word_of_int ([0xAA, 253, 100, 0, 0, 0, 0, 127, 128, 0, 0, 0, 0, 5, 7::int] ! (2 + 3 * 2)) :: 8 word) = - 128"
proof -
  let ?st = "[\<lparr>dx = - 3, dy = 100, btns = 1, wheel = 2\<rparr>, zero_slot, zero_slot,
              \<lparr>dx = 127, dy = - 128, btns = 4, wheel = 5\<rparr>, zero_slot, zero_slot]"
  have h1: "valid_snapshot ?st" by code_simp
  have h2: "(3::nat) < 6" by simp
  have h3: "make_packet ?st = Inr [0xAA, 253, 100, 0, 0, 0, 0, 127, 128, 0, 0, 0, 0, 5, 7]"
    by code_simp
  show ?thesis
    using h1 h3 frame_recovers_motion_and_combined_fields [OF h1 h2 h3] by simp
qed

section \<open>Properties of test_random_mice.py\<close>

lemma length_fold_update:
  "length (fold (\<lambda>i ds. ds[i := g i]) is ds0) = length ds0"
  by (induction "is" arbitrary: ds0) simp_all

lemma length_gen_deltas: "length (gen_deltas single mag rnd) = 6"
  by (simp add: gen_deltas_def Let_def NUM_MICE_MAX_def length_fold_update split: option.splits)

lemma make_packet_synth_explicit:
  "\<exists>m. make_packet_synth [a, b, c, d, e, f] = Inr ([0xAA] @ m @ [0, 0]) \<and> length m = 12"
proof -
  have "make_packet_synth [a, b, c, d, e, f] =
      Inr ([0xAA] @ concat (map (\<lambda>(x, y). [clamp_s8 x AND 0xFF, clamp_s8 y AND 0xFF]) [a, b, c, d, e, f])
           @ [0, 0])"
    apply (simp add: make_packet_synth_def upt6 PACKET_LEN_def SYNC_def getitem_def setitem_byte
        and_ff_range split: prod.splits)
    apply (simp add: eval_nat_numeral)
    done
  then show ?thesis by (intro exI conjI, assumption) (simp split: prod.splits)
qed

lemma synth_frame_produced:
  assumes "single = None \<or> (\<exists>n. single = Some n \<and> 0 \<le> n \<and> n < 6)" and "rate \<noteq> 0"
  shows "\<exists>m. synth_frame single magnitude rate rnd = Inr ([0xAA] @ m @ [0, 0]) \<and> length m = 12"
proof -
  let ?ds = "gen_deltas single (max 1 (min 127 magnitude)) rnd"
  have run: "synth_frame single magnitude rate rnd = make_packet_synth ?ds"
    using assms by (auto simp: synth_frame_def NUM_MICE_MAX_def Let_def)
  from length6 [OF length_gen_deltas] obtain a b c d e f where "?ds = [a, b, c, d, e, f]"
    by blast
  with make_packet_synth_explicit [of a b c d e f] show ?thesis by (simp add: run)
qed

text \<open>
  C10: for every magnitude, every rate and every outcome of the random draws, with
  \<open>--single\<close> absent or given, a packet that a pass of \<open>test_random_mice.py\<close> writes has
  15 bytes, with \<open>0xAA\<close> at offset 0 and 0 at offsets 13 and 14.
\<close>

theorem synthetic_frames_have_no_buttons_or_wheel:
  assumes "synth_frame single magnitude rate rnd = Inr frame"
  shows "length frame = 15 \<and> frame ! 0 = 0xAA \<and> frame ! 13 = 0 \<and> frame ! 14 = 0"
proof -
  have single: "single = None \<or> (\<exists>n. single = Some n \<and> 0 \<le> n \<and> n < 6)"
    using assms by (cases single) (auto simp: synth_frame_def NUM_MICE_MAX_def split: if_splits)
  have rate: "rate \<noteq> 0"
    using assms by (auto simp: synth_frame_def split: if_splits)
  from synth_frame_produced [OF single rate, of magnitude rnd]
  obtain m where m: "frame = [0xAA] @ m @ [0, 0]" "length m = 12"
    using assms by auto
  have "([0xAA] @ m @ [0, 0::int]) ! 13 = 0" "([0xAA] @ m @ [0, 0::int]) ! 14 = 0"
    using m(2) by (simp_all add: nth_append)
  then show ?thesis using m by simp
qed

theorem synthetic_frames_have_no_buttons_or_wheel_witness:
  "synth_frame (Some 3) 400 50 (\<lambda>k. int k * 77)
     = Inr [0xAA, 0, 0, 0, 0, 0, 0, 129, 206, 0, 0, 0, 0, 0, 0]
   \<and> synth_frame None 4 50 (\<lambda>k. int k * 77)
     = Inr [0xAA, 252, 1, 253, 2, 254, 3, 255, 4, 0, 252, 1, 253, 0, 0]
   \<and> length [0xAA, 0, 0, 0, 0, 0, 0, 129, 206, 0, 0, 0, 0, 0, 0 :: int] = 15
   \<and> [0xAA, 0, 0, 0, 0, 0, 0, 129, 206, 0, 0, 0, 0, 0, 0 :: int] ! 0 = 0xAA
   \<and> [0xAA, 0, 0, 0, 0, 0, 0, 129, 206, 0, 0, 0, 0, 0, 0 :: int] ! 13 = 0
   \<and> [0xAA, 0, 0, 0, 0, 0, 0, 129, 206, 0, 0, 0, 0, 0, 0 :: int] ! 14 = 0
   \<and> [0xAA, 252, 1, 253, 2, 254, 3, 255, 4, 0, 252, 1, 253, 0, 0 :: int] ! 13 = 0
   \<and> [0xAA, 252, 1, 253, 2, 254, 3, 255, 4, 0, 252, 1, 253, 0, 0 :: int] ! 14 = 0"
proof -
  have h1: "synth_frame (Some 3) 400 50 (\<lambda>k. int k * 77)
     = Inr [0xAA, 0, 0, 0, 0, 0, 0, 129, 206, 0, 0, 0, 0, 0, 0]" by code_simp
  have h2: "synth_frame None 4 50 (\<lambda>k. int k * 77)
     = Inr [0xAA, 252, 1, 253, 2, 254, 3, 255, 4, 0, 252, 1, 253, 0, 0]" by code_simp
  show ?thesis
    using h1 h2 synthetic_frames_have_no_buttons_or_wheel [OF h1]
      synthetic_frames_have_no_buttons_or_wheel [OF h2]
    by simp
qed

section \<open>Properties of send_settings.py\<close>

text \<open>
  The product of line 58 is a binary64 product: the float nearest to 0.155 times 100 is
  15.5 exactly and rounds to 16, where the decimal 0.155 times 100 would round to 15.
\<close>

lemma amplify_x100_binary_rounding:
  "amplify_x100 (float_of_rat (155 / 1000)) = Inr 16"
  by code_simp

lemma float_of_rat_tenth:
  "float_of_rat (1 / 10) = Finite (3602879701896397 / 36028797018963968)"
  by code_simp

text \<open>
  A product beyond the finite floats is an infinity, and \<open>round\<close> raises for it: so it is
  for \<open>1e307 * 100\<close>, whose exponent is above 971.
\<close>

lemma float_of_rat_overflow:
  assumes "0 < x" and "1023 < floor_log2 x"
  shows "float_of_rat x = PosInf"
  using assms by (simp add: float_of_rat_def Let_def)

lemma amplify_x100_not_finite:
  "amplify_x100 PosInf = Inl OverflowError" "amplify_x100 NaN = Inl ValueError"
  by (simp_all add: amplify_x100_def bind_err_def)

text \<open>
  C3: the record \<open>num_devices = 6\<close>, \<open>logic_mode = xor\<close>, \<open>input_mode = both\<close>,
  \<open>output_mode = separate\<close>, \<open>amplify = 2.5\<close>, \<open>quad_scale = 4\<close>, \<open>persist = true\<close> is sent
  as the eleven bytes 55 CF 01 06 06 02 01 FA 04 00 01 (hexadecimal), the low byte of
  \<open>quad_scale\<close> at offset 8 and the high byte at offset 9.
\<close>

theorem config_encode_example:
  "send_settings_main
     \<lparr>arg_num_mice = Some 6, arg_logic_mode = Some ''xor'', arg_input_mode = Some ''both'',
      arg_output_mode = Some ''separate'', arg_amplify = Some (float_of_rat (25 / 10)),
      arg_quad_scale = Some 4,
      arg_no_save = False\<rparr> Map.empty
     = Inr [0x55, 0xCF, 0x01, 0x06, 0x06, 0x02, 0x01, 0xFA, 0x04, 0x00, 0x01]
   \<and> table_index LOGIC_MODES ''xor'' = Inr 6
   \<and> table_index INPUT_MODES ''both'' = Inr 2
   \<and> table_index OUTPUT_MODES ''separate'' = Inr 1
   \<and> build_packet 6 6 2 1 (float_of_rat (25 / 10)) 4 True
     = Inr [0x55, 0xCF, 0x01, 0x06, 0x06, 0x02, 0x01, 0xFA, 0x04, 0x00, 0x01]"
  by code_simp

text \<open>
  C4: for \<open>amplify = 12.0\<close> the clamped \<open>amplify_x100\<close> is 1000, and the byte at
  offset 7 is \<open>1000 & 0xFF = 232\<close>, not 1000; for \<open>amplify = 0.01\<close> it is 10 and the byte
  is 10.
\<close>

theorem amplify_byte_truncated:
  "amplify_x100 (float_of_rat 12) = Inr 1000
   \<and> build_packet 6 0 0 0 (float_of_rat 12) 2 True
       = Inr [0x55, 0xCF, 0x01, 6, 0, 0, 0, 232, 2, 0, 1]
   \<and> amplify_x100 (float_of_rat (1 / 100)) = Inr 10
   \<and> build_packet 6 0 0 0 (float_of_rat (1 / 100)) 2 True
       = Inr [0x55, 0xCF, 0x01, 6, 0, 0, 0, 10, 2, 0, 1]"
  by code_simp

text \<open>
  A mode name of the configuration file that is in no table: it is sent as mode 0.
\<close>

theorem unknown_mode_in_config_is_sent:
  "send_settings_main default_args [''logic_mode'' \<mapsto> YStr ''bogus'']
     = Inr [0x55, 0xCF, 0x01, 6, 0, 0, 0, 100, 2, 0, 1]"
  by code_simp

text \<open>
  C8: as amended. When the number of mice that the run resolves (the option
  \<open>--num-mice\<close>, else \<open>int\<close> of the value of the configuration file) is outside \<open>[2, 6]\<close>, or
  a mode name given on the command line is in no table, the run ends with an error before
  anything is written.
\<close>

theorem invalid_settings_write_nothing:
  assumes "(\<exists>n. resolve_num_mice a cfg = Inr n \<and> (n < 2 \<or> 6 < n)) \<or> \<not> parse_args_ok a"
  shows "\<exists>e. send_settings_main a cfg = Inl e"
  using assms
  by (auto simp: send_settings_main_def bind_err_def split: sum.splits)

theorem invalid_settings_write_nothing_witness:
  "((\<exists>n. resolve_num_mice (default_args\<lparr>arg_num_mice := Some 7\<rparr>) Map.empty = Inr n \<and> (n < 2 \<or> 6 < n))
      \<or> \<not> parse_args_ok (default_args\<lparr>arg_num_mice := Some 7\<rparr>))
   \<and> (\<exists>e. send_settings_main (default_args\<lparr>arg_num_mice := Some 7\<rparr>) Map.empty = Inl e)"
proof -
  have "resolve_num_mice (default_args\<lparr>arg_num_mice := Some 7\<rparr>) Map.empty = Inr 7"
    by (simp add: resolve_num_mice_def default_args_def)
  then have h: "(\<exists>n. resolve_num_mice (default_args\<lparr>arg_num_mice := Some 7\<rparr>) Map.empty = Inr n \<and> (n < 2 \<or> 6 < n))
      \<or> \<not> parse_args_ok (default_args\<lparr>arg_num_mice := Some 7\<rparr>)" by simp
  show ?thesis using h invalid_settings_write_nothing [OF h] by blast
qed

section \<open>The waits of the two loops\<close>

text \<open>
  The wait before frame 1, entered 10 ms after the start because frame 0 went out early:
  the deadline \<open>start + 2 * T\<close> is 30 ms away, and \<open>select\<close> is given 20 ms.
\<close>

theorem fixed_select_timeout_is_not_deadline_remaining:
  "select_timeout \<noteq> deadline_remaining 0 1 (2 / 100) (1 / 100)"
  by (simp add: select_timeout_def deadline_remaining_def)

text \<open>
  C9: as amended. In \<open>test_random_mice.py\<close> the pause after \<open>packets\<close> packets is the
  time remaining until \<open>start + (packets + 1) * interval\<close>, so a pass resumes at that
  deadline, or at once when the deadline has passed; in \<open>host_send_mice.py\<close> every wait
  has the constant timeout of 0.02 s.
\<close>

theorem synthetic_sleep_is_deadline_remaining:
  "sleep_time start packets interval now = deadline_remaining start packets interval now
   \<and> wake_time start packets interval now = max now (start + (of_nat packets + 1) * interval)
   \<and> select_timeout = 2 / 100"
  by (simp add: sleep_time_def next_until_def deadline_remaining_def wake_time_def
      select_timeout_def max_def)

end
